theory Spec2Isabelle
  imports Complex_Main "HOL-Library.AList" "HOL-Library.Multiset"
begin

section \<open>Numbers\<close>

text \<open>
  The engine computes with JavaScript numbers. They are modelled as real numbers:
  the arithmetic of the scoring formulas is the arithmetic of the field, and rounding
  to the nearest representable double, NaN and the infinities are outside the model.
\<close>

type_synonym number = real

text \<open>\<^verbatim>\<open>Math.round\<close>: the nearest integer, a tie going up.\<close>

definition Math_round :: "number \<Rightarrow> number" where
  "Math_round x = of_int \<lfloor>x + 1 / 2\<rfloor>"

text \<open>A number used as a condition: \<^verbatim>\<open>undefined\<close> and \<^verbatim>\<open>0\<close> are falsy.\<close>

definition truthy :: "number option \<Rightarrow> bool" where
  "truthy x = (case x of None \<Rightarrow> False | Some n \<Rightarrow> n \<noteq> 0)"

section \<open>Questions\<close>

datatype AnswerType = MultipleChoice | TextAnswer | Numeric
datatype Difficulty = Easy | Medium | Hard
datatype MediaType = Image | Audio | Video
datatype MediaShowDuring = DuringQuestion | DuringAnswer | DuringBoth

record QuestionMedia =
  m_type :: MediaType
  m_url :: string
  m_autoplay :: "bool option"
  m_showDuring :: "MediaShowDuring option"

text \<open>The opaque \<^verbatim>\<open>extraInfo\<close> payload is a tree of plain data.\<close>

datatype json = JNull | JBool bool | JNum number | JStr string
  | JArr "json list" | JObj "(string \<times> json) list"

text \<open>
  \<^verbatim>\<open>interface Question\<close>. An optional property is an \<open>option\<close>; the record is
  extensible, so a value of a type \<^verbatim>\<open>T extends Question\<close> carries its further
  properties in the record's extension.
\<close>

record Question =
  q_id :: string
  q_category :: string
  q_difficulty :: "Difficulty option"
  q_text :: string
  q_answerType :: AnswerType
  q_options :: "string list option"
  q_correctOptionIndex :: "number option"
  q_correctText :: "string option"
  q_acceptedAnswers :: "string list option"
  q_caseSensitive :: "bool option"
  q_correctNumber :: "number option"
  q_lowerBound :: "number option"
  q_upperBound :: "number option"
  q_media :: "QuestionMedia option"
  q_extraInfo :: "(string \<times> json) list option"
  q_timeLimit :: "number option"
  q_points :: "number option"

datatype AnswerValue = AnswerText string | AnswerNumber number

record PlayerAnswer =
  a_playerId :: string
  a_questionId :: string
  a_answer :: AnswerValue
  a_timestamp :: number
  a_answeredAt :: number
  a_isCorrect :: "bool option"
  a_pointsAwarded :: "number option"
  a_rejected :: "bool option"

section \<open>Scoring configuration\<close>

record TimeBonusConfig =
  tb_enabled :: bool
  tb_maxBonus :: number
  tb_decayPerSecond :: number

record StreakBonusConfig =
  sb_enabled :: bool
  sb_multiplierPerStreak :: number
  sb_maxMultiplier :: number

text \<open>
  The interface declares the three factors as required; \<^verbatim>\<open>getDifficultyMultiplier\<close>
  still guards each lookup with \<^verbatim>\<open>?? 1\<close>, so a factor may be missing at run time.
\<close>

record DifficultyMultipliers =
  dm_easy :: "number option"
  dm_medium :: "number option"
  dm_hard :: "number option"

record EstimationScoringConfig =
  es_exactMatchBonus :: number
  es_capAtMax :: bool
  es_maxScore :: number
  es_minScore :: number

record ScoringConfig =
  sc_basePoints :: number
  sc_timeBonus :: "TimeBonusConfig option"
  sc_streakBonus :: "StreakBonusConfig option"
  sc_difficultyMultipliers :: "DifficultyMultipliers option"
  sc_estimation :: "EstimationScoringConfig option"

section \<open>Scoring strategies\<close>

definition calculateTimeBonus :: "TimeBonusConfig \<Rightarrow> number \<Rightarrow> number \<Rightarrow> number" where
  "calculateTimeBonus config answeredAtMs timeLimitSeconds =
     (if \<not> tb_enabled config then 0
      else let answeredAtSeconds = answeredAtMs / 1000 in
        if answeredAtSeconds \<ge> timeLimitSeconds then 0
        else let decay = answeredAtSeconds * tb_decayPerSecond config;
                 bonus = max 0 (tb_maxBonus config - decay)
             in Math_round bonus)"

definition calculateStreakMultiplier :: "StreakBonusConfig \<Rightarrow> number \<Rightarrow> number" where
  "calculateStreakMultiplier config currentStreak =
     (if \<not> sb_enabled config then 1
      else let bonus = currentStreak * sb_multiplierPerStreak config;
               multiplier = 1 + min bonus (sb_maxMultiplier config - 1)
           in multiplier)"




section \<open>Scoring engine\<close>








text \<open>The configuration \<^verbatim>\<open>createScoringEngine\<close> starts from.\<close>

definition defaultConfig :: ScoringConfig where
  "defaultConfig =
     \<lparr>sc_basePoints = 100,
      sc_timeBonus = Some \<lparr>tb_enabled = True, tb_maxBonus = 50, tb_decayPerSecond = 5\<rparr>,
      sc_streakBonus = Some \<lparr>sb_enabled = True, sb_multiplierPerStreak = 1 / 10,
                              sb_maxMultiplier = 2\<rparr>,
      sc_difficultyMultipliers = Some \<lparr>dm_easy = Some 1, dm_medium = Some (3 / 2),
                                        dm_hard = Some 2\<rparr>,
      sc_estimation = Some \<lparr>es_exactMatchBonus = - 10, es_capAtMax = True, es_maxScore = 25,
                             es_minScore = 1\<rparr>\<rparr>"

section \<open>JavaScript maps\<close>

text \<open>
  A \<^verbatim>\<open>Map\<close> iterates in insertion order, so it is a list of entries with distinct
  keys: \<^verbatim>\<open>get\<close> is \<^const>\<open>map_of\<close>, \<^verbatim>\<open>set\<close> is \<^const>\<open>AList.update\<close> (the value
  is replaced in place, a new key goes to the end), \<^verbatim>\<open>delete\<close> is
  \<^const>\<open>AList.delete\<close>, \<^verbatim>\<open>values()\<close> is \<open>map snd\<close> and \<^verbatim>\<open>size\<close> is the length.
\<close>

type_synonym ('k, 'v) Map = "('k \<times> 'v) list"

definition Map_has :: "('k, 'v) Map \<Rightarrow> 'k \<Rightarrow> bool" where
  "Map_has m k = (map_of m k \<noteq> None)"



section \<open>Answer tracker\<close>

datatype AnswerMode = AllPlayers | FirstToAnswer

record AnswerTrackerConfig =
  tc_answerMode :: AnswerMode
  tc_allowLateAnswers :: bool
  tc_timeLimit :: "number option"

record AnswerSubmission =
  s_playerId :: string
  s_questionId :: string
  s_answer :: AnswerValue
  s_submittedAt :: number

datatype RejectReason = Late | AlreadyAnswered | Invalid

record AnswerResult =
  ar_accepted :: bool
  ar_rejected :: bool
  ar_rejectReason :: "RejectReason option"
  ar_playerAnswer :: "PlayerAnswer option"
  ar_answerOrder :: "nat option"

record AnswerTracker =
  t_config :: AnswerTrackerConfig
  t_questionStartTime :: number
  t_answers :: "(string, PlayerAnswer) Map"
  t_answerOrder :: "string list"

definition new_AnswerTracker :: "AnswerTrackerConfig \<Rightarrow> AnswerTracker" where
  "new_AnswerTracker config =
     \<lparr>t_config = config, t_questionStartTime = 0, t_answers = [], t_answerOrder = []\<rparr>"

definition startQuestion :: "AnswerTracker \<Rightarrow> number \<Rightarrow> AnswerTracker" where
  "startQuestion t startTime =
     t\<lparr>t_questionStartTime := startTime, t_answers := [], t_answerOrder := []\<rparr>"

definition rejection :: "RejectReason \<Rightarrow> AnswerResult" where
  "rejection reason =
     \<lparr>ar_accepted = False, ar_rejected = True, ar_rejectReason = Some reason,
      ar_playerAnswer = None, ar_answerOrder = None\<rparr>"

definition submitAnswer :: "AnswerTracker \<Rightarrow> AnswerSubmission \<Rightarrow> AnswerResult \<times> AnswerTracker" where
  "submitAnswer t submission =
     (if Map_has (t_answers t) (s_playerId submission) then (rejection AlreadyAnswered, t)
      else
        let answeredAt = s_submittedAt submission - t_questionStartTime t in
        if truthy (tc_timeLimit (t_config t)) \<and> \<not> tc_allowLateAnswers (t_config t)
           \<and> answeredAt > the (tc_timeLimit (t_config t)) * 1000
        then (rejection Late, t)
        else
          let order = t_answerOrder t @ [s_playerId submission];
              answerOrder = length order;
              playerAnswer = \<lparr>a_playerId = s_playerId submission,
                a_questionId = s_questionId submission, a_answer = s_answer submission,
                a_timestamp = s_submittedAt submission, a_answeredAt = answeredAt,
                a_isCorrect = None, a_pointsAwarded = None, a_rejected = None\<rparr>
          in (\<lparr>ar_accepted = True, ar_rejected = False, ar_rejectReason = None,
               ar_playerAnswer = Some playerAnswer, ar_answerOrder = Some answerOrder\<rparr>,
              t\<lparr>t_answerOrder := order,
                t_answers := AList.update (s_playerId submission) playerAnswer (t_answers t)\<rparr>))"

text \<open>
  \<^verbatim>\<open>updateAnswer\<close> spreads a partial update over the stored answer: a key that is
  absent from the update (\<open>None\<close>) keeps the stored value, a key that is present
  replaces it.
\<close>

record AnswerUpdates =
  u_isCorrect :: "bool option option"
  u_pointsAwarded :: "number option option"

definition updateAnswer :: "AnswerTracker \<Rightarrow> string \<Rightarrow> AnswerUpdates \<Rightarrow> AnswerTracker" where
  "updateAnswer t playerId updates =
     (case map_of (t_answers t) playerId of
        None \<Rightarrow> t
      | Some answer \<Rightarrow>
          t\<lparr>t_answers := AList.update playerId
              (answer\<lparr>a_isCorrect := (case u_isCorrect updates of
                                         None \<Rightarrow> a_isCorrect answer | Some v \<Rightarrow> v),
                      a_pointsAwarded := (case u_pointsAwarded updates of
                                            None \<Rightarrow> a_pointsAwarded answer | Some v \<Rightarrow> v)\<rparr>)
              (t_answers t)\<rparr>)"

definition hasAnswered :: "AnswerTracker \<Rightarrow> string \<Rightarrow> bool" where
  "hasAnswered t playerId = Map_has (t_answers t) playerId"

definition getAnswerCount :: "AnswerTracker \<Rightarrow> nat" where
  "getAnswerCount t = length (t_answers t)"

text \<open>
  What happens to a tracker during one round: submissions and validation updates, in
  any order, with no \<^verbatim>\<open>startQuestion\<close> in between.
\<close>

datatype TrackerCall = Submit AnswerSubmission | Update string AnswerUpdates

fun call :: "AnswerTracker \<Rightarrow> TrackerCall \<Rightarrow> AnswerTracker" where
  "call t (Submit submission) = snd (submitAnswer t submission)"
| "call t (Update playerId updates) = updateAnswer t playerId updates"

definition during_round :: "AnswerTracker \<Rightarrow> TrackerCall list \<Rightarrow> AnswerTracker" where
  "during_round t calls = foldl call t calls"

section \<open>Power-ups\<close>

datatype PowerupDuration = SingleQuestion | Permanent | Timed

datatype PowerupEffect =
  DoublePoints | RemoveTwoWrong | ExtraTime | SkipQuestion | StealPoints | Shield | Custom

record PowerupDefinition =
  pu_id :: string
  pu_name :: string
  pu_description :: "string option"
  pu_duration :: "PowerupDuration option"
  pu_effect :: "PowerupEffect option"
  pu_value :: "number option"

record PlayerPowerupState =
  ps_available :: "PowerupDefinition list"
  ps_active :: "PowerupDefinition option"
  ps_used :: "string list"

definition createPowerupState :: "PowerupDefinition list \<Rightarrow> PlayerPowerupState" where
  "createPowerupState availablePowerups =
     \<lparr>ps_available = availablePowerups, ps_active = None, ps_used = []\<rparr>"

definition grantPowerup :: "PlayerPowerupState \<Rightarrow> PowerupDefinition \<Rightarrow> PlayerPowerupState" where
  "grantPowerup state powerup = state\<lparr>ps_available := ps_available state @ [powerup]\<rparr>"

text \<open>\<^verbatim>\<open>findIndex\<close>: the first position that satisfies the test; \<open>None\<close> is its -1.\<close>

fun findIndex :: "('a \<Rightarrow> bool) \<Rightarrow> 'a list \<Rightarrow> nat option" where
  "findIndex P [] = None"
| "findIndex P (x # xs) =
     (if P x then Some 0 else (case findIndex P xs of None \<Rightarrow> None | Some i \<Rightarrow> Some (Suc i)))"

text \<open>\<^verbatim>\<open>splice(i, 1)\<close> on a copy of the list.\<close>

definition splice1 :: "nat \<Rightarrow> 'a list \<Rightarrow> 'a list" where
  "splice1 i xs = take i xs @ drop (Suc i) xs"

definition activatePowerup :: "PlayerPowerupState \<Rightarrow> string \<Rightarrow> PlayerPowerupState option" where
  "activatePowerup state powerupId =
     (case findIndex (\<lambda>p. pu_id p = powerupId) (ps_available state) of
        None \<Rightarrow> None
      | Some powerupIndex \<Rightarrow>
          (if ps_active state \<noteq> None then None
           else
             let powerup = ps_available state ! powerupIndex;
                 newAvailable = splice1 powerupIndex (ps_available state)
             in Some \<lparr>ps_available = newAvailable, ps_active = Some powerup,
                      ps_used = ps_used state\<rparr>))"

definition consumeActivePowerup :: "PlayerPowerupState \<Rightarrow> PlayerPowerupState" where
  "consumeActivePowerup state =
     (case ps_active state of
        None \<Rightarrow> state
      | Some active \<Rightarrow>
          \<lparr>ps_available = ps_available state, ps_active = None,
           ps_used = ps_used state @ [pu_id active]\<rparr>)"

record PowerupManager =
  pm_playerStates :: "(string, PlayerPowerupState) Map"
  pm_defaultPowerups :: "PowerupDefinition list"

definition initPlayer :: "PowerupManager \<Rightarrow> string \<Rightarrow> PowerupManager" where
  "initPlayer m playerId =
     m\<lparr>pm_playerStates :=
         AList.update playerId (createPowerupState (pm_defaultPowerups m)) (pm_playerStates m)\<rparr>"

definition grantToPlayer :: "PowerupManager \<Rightarrow> string \<Rightarrow> PowerupDefinition \<Rightarrow> bool \<times> PowerupManager" where
  "grantToPlayer m playerId powerup =
     (case map_of (pm_playerStates m) playerId of
        None \<Rightarrow> (False, m)
      | Some state \<Rightarrow>
          (True, m\<lparr>pm_playerStates :=
                    AList.update playerId (grantPowerup state powerup) (pm_playerStates m)\<rparr>))"

definition activateForPlayer :: "PowerupManager \<Rightarrow> string \<Rightarrow> string \<Rightarrow> bool \<times> PowerupManager" where
  "activateForPlayer m playerId powerupId =
     (case map_of (pm_playerStates m) playerId of
        None \<Rightarrow> (False, m)
      | Some state \<Rightarrow>
          (case activatePowerup state powerupId of
             None \<Rightarrow> (False, m)
           | Some newState \<Rightarrow>
               (True, m\<lparr>pm_playerStates :=
                         AList.update playerId newState (pm_playerStates m)\<rparr>)))"

text \<open>
  \<^verbatim>\<open>consumeAllActive\<close> sets every key to its consumed state while iterating; a key
  that exists keeps its place, so the loop is a map over the entries.
\<close>

definition consumeAllActive :: "PowerupManager \<Rightarrow> PowerupManager" where
  "consumeAllActive m =
     m\<lparr>pm_playerStates :=
         foldl (\<lambda>states (playerId, state).
                  AList.update playerId (consumeActivePowerup state) states)
           (pm_playerStates m) (pm_playerStates m)\<rparr>"

section \<open>Game state\<close>

datatype GamePhase = Lobby | Playing | Revealing | Finished

record QuizGameConfig =
  c_roomCode :: "string option"
  c_scoring :: ScoringConfig
  c_powerups :: "PowerupDefinition list option"
  c_questionTimeLimit :: "number option"
  c_showAnswerAfterQuestion :: "bool option"
  c_autoAdvance :: "bool option"
  c_answerMode :: "AnswerMode option"
  c_allowLateAnswers :: "bool option"
  c_autoAdvanceOnAllAnswered :: "bool option"
  c_shuffleQuestions :: "bool option"
  c_questionsPerGame :: "number option"

record Player =
  p_id :: string
  p_name :: string
  p_score :: number
  p_streak :: number
  p_rank :: "number option"
  p_isConnected :: bool
  p_joinedAt :: number
  p_powerups :: PlayerPowerupState

record CurrentQuestionState =
  cq_question :: Question
  cq_questionIndex :: int
  cq_totalQuestions :: nat
  cq_startedAt :: number
  cq_timeRemaining :: "number option"
  cq_answers :: "(string, PlayerAnswer) Map"

record GameState =
  gs_phase :: GamePhase
  gs_roomCode :: string
  gs_config :: QuizGameConfig
  gs_players :: "(string, Player) Map"
  gs_currentQuestion :: "CurrentQuestionState option"
  gs_questionHistory :: "Question list"
  gs_startedAt :: "number option"
  gs_finishedAt :: "number option"

record ScoreboardEntry =
  e_playerId :: string
  e_playerName :: string
  e_score :: number
  e_rank :: nat
  e_streak :: number
  e_lastAnswerCorrect :: "bool option"
  e_pointsThisRound :: "number option"

definition createInitialGameState :: "string \<Rightarrow> QuizGameConfig \<Rightarrow> GameState" where
  "createInitialGameState roomCode config =
     \<lparr>gs_phase = Lobby, gs_roomCode = roomCode, gs_config = config, gs_players = [],
      gs_currentQuestion = None, gs_questionHistory = [], gs_startedAt = None,
      gs_finishedAt = None\<rparr>"

definition createInitialPowerupState :: PlayerPowerupState where
  "createInitialPowerupState = \<lparr>ps_available = [], ps_active = None, ps_used = []\<rparr>"

text \<open>The clock (\<^verbatim>\<open>Date.now()\<close>) is an argument of every function that reads it.\<close>

definition createPlayer :: "string \<Rightarrow> string \<Rightarrow> number \<Rightarrow> Player" where
  "createPlayer playerId playerName now =
     \<lparr>p_id = playerId, p_name = playerName, p_score = 0, p_streak = 0, p_rank = None,
      p_isConnected = True, p_joinedAt = now, p_powerups = createInitialPowerupState\<rparr>"

definition createCurrentQuestionState ::
  "Question \<Rightarrow> int \<Rightarrow> nat \<Rightarrow> number \<Rightarrow> CurrentQuestionState" where
  "createCurrentQuestionState question questionIndex totalQuestions now =
     \<lparr>cq_question = question, cq_questionIndex = questionIndex,
      cq_totalQuestions = totalQuestions, cq_startedAt = now, cq_timeRemaining = None,
      cq_answers = []\<rparr>"

subsection \<open>Scoreboard\<close>

definition toEntry :: "(string, PlayerAnswer) Map option \<Rightarrow> Player \<Rightarrow> ScoreboardEntry" where
  "toEntry currentAnswers player =
     (let answer = (case currentAnswers of
                      None \<Rightarrow> None | Some answers \<Rightarrow> map_of answers (p_id player))
      in \<lparr>e_playerId = p_id player, e_playerName = p_name player, e_score = p_score player,
           e_rank = 0, e_streak = p_streak player,
           e_lastAnswerCorrect = (case answer of None \<Rightarrow> None | Some a \<Rightarrow> a_isCorrect a),
           e_pointsThisRound = (case answer of None \<Rightarrow> None | Some a \<Rightarrow> a_pointsAwarded a)\<rparr>)"

text \<open>
  \<^verbatim>\<open>sort((a, b) => b.score - a.score)\<close>: the stable sort by descending score, which
  is the insertion sort on the negated score.
\<close>

definition sortByScore :: "ScoreboardEntry list \<Rightarrow> ScoreboardEntry list" where
  "sortByScore entries = sort_key (\<lambda>e. - e_score e) entries"

text \<open>The ranking loop, from position \<open>i\<close> on, with the rank it carries.\<close>

function assignRanks :: "nat \<Rightarrow> nat \<Rightarrow> ScoreboardEntry list \<Rightarrow> ScoreboardEntry list" where
  "assignRanks i currentRank entries =
     (if i < length entries then
        let currentRank' =
              (if i > 0 \<and> e_score (entries ! i) < e_score (entries ! (i - 1))
               then i + 1 else currentRank)
        in assignRanks (i + 1) currentRank'
             (entries[i := (entries ! i)\<lparr>e_rank := currentRank'\<rparr>])
      else entries)"
  by pat_completeness auto
termination
  by (relation "measure (\<lambda>(i, currentRank, entries). length entries - i)") auto

definition calculateScoreboard ::
  "(string, Player) Map \<Rightarrow> (string, PlayerAnswer) Map option \<Rightarrow> ScoreboardEntry list" where
  "calculateScoreboard players currentAnswers =
     assignRanks 0 1 (sortByScore (map (toEntry currentAnswers) (map snd players)))"

subsection \<open>Phase transitions\<close>

definition validTransitions :: "GamePhase \<Rightarrow> GamePhase list" where
  "validTransitions from =
     (case from of
        Lobby \<Rightarrow> [Playing]
      | Playing \<Rightarrow> [Revealing, Finished]
      | Revealing \<Rightarrow> [Playing, Finished]
      | Finished \<Rightarrow> [Lobby])"

definition isValidPhaseTransition :: "GamePhase \<Rightarrow> GamePhase \<Rightarrow> bool" where
  "isValidPhaseTransition from to = List.member (validTransitions from) to"

subsection \<open>Rematch and persistence\<close>

definition resetPlayer :: "Player \<Rightarrow> Player" where
  "resetPlayer player =
     player\<lparr>p_score := 0, p_streak := 0, p_rank := None,
            p_powerups := createInitialPowerupState\<rparr>"

definition resetForRematch :: "GameState \<Rightarrow> GameState" where
  "resetForRematch state =
     (let newPlayers = foldl (\<lambda>m (playerId, player). AList.update playerId (resetPlayer player) m)
                         [] (gs_players state)
      in state\<lparr>gs_phase := Lobby, gs_players := newPlayers, gs_currentQuestion := None,
               gs_questionHistory := [], gs_startedAt := None, gs_finishedAt := None\<rparr>)"




section \<open>Game machine\<close>

datatype GameEvent =
    PLAYER_JOIN string string
  | PLAYER_LEAVE string
  | PLAYER_RECONNECT string
  | START_GAME "Question list"
  | SHOW_QUESTION Question int nat
  | PLAYER_ANSWER string PlayerAnswer
  | END_QUESTION
  | REVEAL_ANSWER
  | NEXT_QUESTION Question int nat
  | END_GAME
  | REMATCH
  | KICK_PLAYER string
  | ADJUST_SCORE string number
  | UPDATE_PLAYER_SCORE string number number

text \<open>
  The machine's state, and the events it has handed to its listeners so far. A
  listener only observes, so \<^verbatim>\<open>emit\<close> extends the trace.
\<close>

record GameMachine =
  gm_gameState :: GameState
  gm_questions :: "Question list"
  gm_currentQuestionIndex :: int
  gm_emitted :: "GameEvent list"

text \<open>\<^verbatim>\<open>config.roomCode || generateRoomCode()\<close>, the generated code being an argument.\<close>

definition new_GameMachine :: "QuizGameConfig \<Rightarrow> string \<Rightarrow> GameMachine" where
  "new_GameMachine config generated =
     (let roomCode = (case c_roomCode config of
                        Some code \<Rightarrow> (if code \<noteq> [] then code else generated)
                      | None \<Rightarrow> generated)
      in \<lparr>gm_gameState = createInitialGameState roomCode config, gm_questions = [],
           gm_currentQuestionIndex = - 1, gm_emitted = []\<rparr>)"

definition emit :: "GameEvent \<Rightarrow> GameMachine \<Rightarrow> GameMachine" where
  "emit event m = m\<lparr>gm_emitted := gm_emitted m @ [event]\<rparr>"

definition getPhase :: "GameMachine \<Rightarrow> GamePhase" where
  "getPhase m = gs_phase (gm_gameState m)"

definition setPhase :: "GamePhase \<Rightarrow> GameMachine \<Rightarrow> GameMachine" where
  "setPhase phase m = m\<lparr>gm_gameState := (gm_gameState m)\<lparr>gs_phase := phase\<rparr>\<rparr>"

definition setPlayers :: "(string, Player) Map \<Rightarrow> GameMachine \<Rightarrow> GameMachine" where
  "setPlayers players m = m\<lparr>gm_gameState := (gm_gameState m)\<lparr>gs_players := players\<rparr>\<rparr>"

definition transitionTo :: "GamePhase \<Rightarrow> GameMachine \<Rightarrow> bool \<times> GameMachine" where
  "transitionTo phase m =
     (if \<not> isValidPhaseTransition (getPhase m) phase then (False, m)
      else (True, setPhase phase m))"

definition addPlayer :: "string \<Rightarrow> string \<Rightarrow> number \<Rightarrow> GameMachine \<Rightarrow> Player option \<times> GameMachine" where
  "addPlayer playerId playerName now m =
     (if getPhase m \<noteq> Lobby then
        (case map_of (gs_players (gm_gameState m)) playerId of
           Some existingPlayer \<Rightarrow>
             let rejoined = existingPlayer\<lparr>p_isConnected := True\<rparr>
             in (Some rejoined,
                 emit (PLAYER_RECONNECT playerId)
                   (setPlayers (AList.update playerId rejoined (gs_players (gm_gameState m))) m))
         | None \<Rightarrow> (None, m))
      else
        let player = createPlayer playerId playerName now
        in (Some player,
            emit (PLAYER_JOIN playerId playerName)
              (setPlayers (AList.update playerId player (gs_players (gm_gameState m))) m)))"

definition removePlayer :: "string \<Rightarrow> GameMachine \<Rightarrow> GameMachine" where
  "removePlayer playerId m =
     (case map_of (gs_players (gm_gameState m)) playerId of
        Some player \<Rightarrow>
          emit (PLAYER_LEAVE playerId)
            (setPlayers (AList.update playerId (player\<lparr>p_isConnected := False\<rparr>)
                           (gs_players (gm_gameState m))) m)
      | None \<Rightarrow> m)"

definition kickPlayer :: "string \<Rightarrow> GameMachine \<Rightarrow> GameMachine" where
  "kickPlayer playerId m =
     emit (KICK_PLAYER playerId)
       (setPlayers (AList.delete playerId (gs_players (gm_gameState m))) m)"

definition startGame :: "Question list \<Rightarrow> number \<Rightarrow> GameMachine \<Rightarrow> bool \<times> GameMachine" where
  "startGame questions now m =
     (if getPhase m \<noteq> Lobby then (False, m)
      else if length questions = 0 then (False, m)
      else if length (gs_players (gm_gameState m)) = 0 then (False, m)
      else
        let m1 = m\<lparr>gm_questions := questions, gm_currentQuestionIndex := - 1,
                   gm_gameState := (gm_gameState m)\<lparr>gs_startedAt := Some now\<rparr>\<rparr>;
            m2 = snd (transitionTo Playing m1)
        in (True, emit (START_GAME questions) m2))"

text \<open>
  The index is never below -1, so the next index is a position of the list whenever it
  is below the length; a machine built with a smaller index is given no question.
\<close>

definition nextQuestion :: "number \<Rightarrow> GameMachine \<Rightarrow> Question option \<times> GameMachine" where
  "nextQuestion now m =
     (if getPhase m \<noteq> Playing \<and> getPhase m \<noteq> Revealing then (None, m)
      else
        let nextIndex = gm_currentQuestionIndex m + 1 in
        if nextIndex \<ge> int (length (gm_questions m)) \<or> nextIndex < 0 then (None, m)
        else
          let m1 = (if getPhase m = Revealing then setPhase Playing m else m);
              question = gm_questions m1 ! nat nextIndex;
              total = length (gm_questions m1);
              m2 = m1\<lparr>gm_currentQuestionIndex := nextIndex,
                      gm_gameState := (gm_gameState m1)
                        \<lparr>gs_currentQuestion :=
                           Some (createCurrentQuestionState question nextIndex total now)\<rparr>\<rparr>
          in (Some question, emit (SHOW_QUESTION question nextIndex total) m2))"

definition recordAnswer :: "PlayerAnswer \<Rightarrow> GameMachine \<Rightarrow> GameMachine" where
  "recordAnswer answer m =
     (case gs_currentQuestion (gm_gameState m) of
        None \<Rightarrow> m
      | Some currentQuestion \<Rightarrow>
          emit (PLAYER_ANSWER (a_playerId answer) answer)
            (m\<lparr>gm_gameState := (gm_gameState m)
                 \<lparr>gs_currentQuestion :=
                    Some (currentQuestion
                      \<lparr>cq_answers := AList.update (a_playerId answer) answer
                                        (cq_answers currentQuestion)\<rparr>)\<rparr>\<rparr>))"

definition endQuestion :: "GameMachine \<Rightarrow> GameMachine" where
  "endQuestion m = (if getPhase m \<noteq> Playing then m else emit END_QUESTION m)"

definition revealAnswer :: "GameMachine \<Rightarrow> GameMachine" where
  "revealAnswer m =
     (if getPhase m \<noteq> Playing then m
      else
        let m1 = (case gs_currentQuestion (gm_gameState m) of
                    Some currentQuestion \<Rightarrow>
                      m\<lparr>gm_gameState := (gm_gameState m)
                          \<lparr>gs_questionHistory :=
                             gs_questionHistory (gm_gameState m)
                               @ [cq_question currentQuestion]\<rparr>\<rparr>
                  | None \<Rightarrow> m);
            m2 = snd (transitionTo Revealing m1)
        in emit REVEAL_ANSWER m2)"

definition updatePlayerScore :: "string \<Rightarrow> number \<Rightarrow> number \<Rightarrow> GameMachine \<Rightarrow> GameMachine" where
  "updatePlayerScore playerId score streak m =
     (case map_of (gs_players (gm_gameState m)) playerId of
        Some player \<Rightarrow>
          emit (UPDATE_PLAYER_SCORE playerId score streak)
            (setPlayers (AList.update playerId (player\<lparr>p_score := score, p_streak := streak\<rparr>)
                           (gs_players (gm_gameState m))) m)
      | None \<Rightarrow> m)"

definition adjustScore :: "string \<Rightarrow> number \<Rightarrow> GameMachine \<Rightarrow> GameMachine" where
  "adjustScore playerId points m =
     (case map_of (gs_players (gm_gameState m)) playerId of
        Some player \<Rightarrow>
          emit (ADJUST_SCORE playerId points)
            (setPlayers (AList.update playerId (player\<lparr>p_score := p_score player + points\<rparr>)
                           (gs_players (gm_gameState m))) m)
      | None \<Rightarrow> m)"

definition endGame :: "number \<Rightarrow> GameMachine \<Rightarrow> ScoreboardEntry list \<times> GameMachine" where
  "endGame now m =
     (let m1 = m\<lparr>gm_gameState := (gm_gameState m)
                   \<lparr>gs_finishedAt := Some now, gs_phase := Finished\<rparr>\<rparr>;
          scoreboard = calculateScoreboard (gs_players (gm_gameState m1))
                         (case gs_currentQuestion (gm_gameState m1) of
                            Some currentQuestion \<Rightarrow> Some (cq_answers currentQuestion)
                          | None \<Rightarrow> None)
      in (scoreboard, emit END_GAME m1))"

definition rematch :: "GameMachine \<Rightarrow> GameMachine" where
  "rematch m =
     emit REMATCH
       (m\<lparr>gm_gameState := resetForRematch (gm_gameState m), gm_currentQuestionIndex := - 1\<rparr>)"

text \<open>The calls a host can make on the machine, and a run of them.\<close>

datatype MachineCall =
    AddPlayer string string number
  | RemovePlayer string
  | KickPlayer string
  | StartGame "Question list" number
  | NextQuestion number
  | RecordAnswer PlayerAnswer
  | EndQuestion
  | RevealAnswer
  | UpdatePlayerScore string number number
  | AdjustScore string number
  | EndGame number
  | Rematch

fun perform :: "GameMachine \<Rightarrow> MachineCall \<Rightarrow> GameMachine" where
  "perform m (AddPlayer playerId playerName now) = snd (addPlayer playerId playerName now m)"
| "perform m (RemovePlayer playerId) = removePlayer playerId m"
| "perform m (KickPlayer playerId) = kickPlayer playerId m"
| "perform m (StartGame questions now) = snd (startGame questions now m)"
| "perform m (NextQuestion now) = snd (nextQuestion now m)"
| "perform m (RecordAnswer answer) = recordAnswer answer m"
| "perform m EndQuestion = endQuestion m"
| "perform m RevealAnswer = revealAnswer m"
| "perform m (UpdatePlayerScore playerId score streak) = updatePlayerScore playerId score streak m"
| "perform m (AdjustScore playerId points) = adjustScore playerId points m"
| "perform m (EndGame now) = snd (endGame now m)"
| "perform m Rematch = rematch m"

section \<open>Messages to the players\<close>

definition stripAnswerData :: "'a Question_scheme \<Rightarrow> 'a Question_scheme" where
  "stripAnswerData question =
     question\<lparr>q_correctOptionIndex := None, q_correctText := None, q_correctNumber := None,
              q_acceptedAnswers := None\<rparr>"

record QuestionPayload =
  qp_question :: Question
  qp_questionIndex :: number
  qp_totalQuestions :: number
  qp_timeLimit :: "number option"
  qp_startedAt :: number

datatype HostBroadcastMessage =
    GameStartMessage string QuizGameConfig number
  | QuestionShowMessage QuestionPayload
  | QuestionReplacedMessage QuestionPayload
  | QuestionEndMessage string
  | AnswerRevealMessage Question "PlayerAnswer list" "ScoreboardEntry list"
  | ScoreboardUpdateMessage "ScoreboardEntry list"
  | GameEndMessage "ScoreboardEntry list" number number
  | GameRematchMessage "ScoreboardEntry list"

definition createQuestionShowMessage ::
  "Question \<Rightarrow> number \<Rightarrow> number \<Rightarrow> number option \<Rightarrow> number \<Rightarrow> HostBroadcastMessage" where
  "createQuestionShowMessage question questionIndex totalQuestions timeLimit now =
     QuestionShowMessage
       \<lparr>qp_question = stripAnswerData question, qp_questionIndex = questionIndex,
        qp_totalQuestions = totalQuestions, qp_timeLimit = timeLimit, qp_startedAt = now\<rparr>"

definition createQuestionReplacedMessage ::
  "Question \<Rightarrow> number \<Rightarrow> number \<Rightarrow> number option \<Rightarrow> number \<Rightarrow> HostBroadcastMessage" where
  "createQuestionReplacedMessage question questionIndex totalQuestions timeLimit now =
     QuestionReplacedMessage
       \<lparr>qp_question = stripAnswerData question, qp_questionIndex = questionIndex,
        qp_totalQuestions = totalQuestions, qp_timeLimit = timeLimit, qp_startedAt = now\<rparr>"

definition createAnswerRevealMessage ::
  "Question \<Rightarrow> PlayerAnswer list \<Rightarrow> ScoreboardEntry list \<Rightarrow> HostBroadcastMessage" where
  "createAnswerRevealMessage question answers scoreboard =
     AnswerRevealMessage question answers scoreboard"

text \<open>The question a broadcast carries, if it carries one.\<close>

fun carriedQuestion :: "HostBroadcastMessage \<Rightarrow> Question option" where
  "carriedQuestion (QuestionShowMessage payload) = Some (qp_question payload)"
| "carriedQuestion (QuestionReplacedMessage payload) = Some (qp_question payload)"
| "carriedQuestion (AnswerRevealMessage question answers scoreboard) = Some question"
| "carriedQuestion _ = None"

chapter \<open>The specification's formulas and sample values\<close>

section \<open>The score as the specification words it\<close>






section \<open>Sample values\<close>

definition plainQuestion :: Question where
  "plainQuestion = \<lparr>q_id = ''q1'', q_category = ''history'', q_difficulty = None,
     q_text = ''When?'', q_answerType = MultipleChoice, q_options = Some [''a'', ''b''],
     q_correctOptionIndex = Some 1, q_correctText = None, q_acceptedAnswers = None,
     q_caseSensitive = None, q_correctNumber = None, q_lowerBound = None, q_upperBound = None,
     q_media = None, q_extraInfo = None, q_timeLimit = None, q_points = None\<rparr>"

definition answerAt :: "number \<Rightarrow> PlayerAnswer" where
  "answerAt ms = \<lparr>a_playerId = ''p1'', a_questionId = ''q1'', a_answer = AnswerNumber 1,
     a_timestamp = 5000 + ms, a_answeredAt = ms, a_isCorrect = None, a_pointsAwarded = None,
     a_rejected = None\<rparr>"





section \<open>Answer tracker: invariant, lateness and sample values\<close>

text \<open>
  The state of a round is well formed when the answer map has no key twice, the
  ordering list has no player twice, the two hold the same players, and every answer
  is stored under its own player.
\<close>

definition round_inv :: "AnswerTracker \<Rightarrow> bool" where
  "round_inv t =
     (distinct (map fst (t_answers t)) \<and> distinct (t_answerOrder t)
      \<and> set (t_answerOrder t) = fst ` set (t_answers t)
      \<and> list_all (\<lambda>(playerId, answer). a_playerId answer = playerId) (t_answers t))"



text \<open>A tracker with a limit of 20 seconds, its question started at time 1000.\<close>

definition timedTracker :: AnswerTracker where
  "timedTracker = startQuestion
     (new_AnswerTracker \<lparr>tc_answerMode = AllPlayers, tc_allowLateAnswers = False,
                          tc_timeLimit = Some 20\<rparr>) 1000"

definition submissionAt :: "string \<Rightarrow> number \<Rightarrow> AnswerSubmission" where
  "submissionAt playerId t =
     \<lparr>s_playerId = playerId, s_questionId = ''q1'', s_answer = AnswerNumber 1,
      s_submittedAt = t\<rparr>"

definition marked :: AnswerUpdates where
  "marked = \<lparr>u_isCorrect = Some (Some True), u_pointsAwarded = Some (Some 100)\<rparr>"

section \<open>Power-ups: sample values\<close>

definition DOUBLE_POINTS :: PowerupDefinition where
  "DOUBLE_POINTS = \<lparr>pu_id = ''double-points'', pu_name = ''Double Points'',
     pu_description = Some ''Double your score for the next correct answer'',
     pu_duration = Some SingleQuestion, pu_effect = Some DoublePoints, pu_value = Some 2\<rparr>"

definition SHIELD :: PowerupDefinition where
  "SHIELD = \<lparr>pu_id = ''shield'', pu_name = ''Shield'',
     pu_description = Some ''Protect your streak if you answer wrong'',
     pu_duration = Some SingleQuestion, pu_effect = Some Shield, pu_value = None\<rparr>"

definition twoPowerups :: PlayerPowerupState where
  "twoPowerups = createPowerupState [DOUBLE_POINTS, SHIELD]"

definition shielded :: PlayerPowerupState where
  "shielded = \<lparr>ps_available = [DOUBLE_POINTS], ps_active = Some SHIELD, ps_used = []\<rparr>"

definition oneManager :: "PlayerPowerupState \<Rightarrow> PowerupManager" where
  "oneManager state =
     \<lparr>pm_playerStates = [(''p1'', state)], pm_defaultPowerups = [DOUBLE_POINTS, SHIELD]\<rparr>"

section \<open>Game state: sample values\<close>

definition plainConfig :: QuizGameConfig where
  "plainConfig = \<lparr>c_roomCode = Some ''ABC123'', c_scoring = defaultConfig, c_powerups = None,
     c_questionTimeLimit = Some 20, c_showAnswerAfterQuestion = None, c_autoAdvance = None,
     c_answerMode = None, c_allowLateAnswers = None, c_autoAdvanceOnAllAnswered = None,
     c_shuffleQuestions = None, c_questionsPerGame = None\<rparr>"

definition playerWith :: "string \<Rightarrow> number \<Rightarrow> number \<Rightarrow> Player" where
  "playerWith name score streak =
     \<lparr>p_id = name, p_name = name, p_score = score, p_streak = streak, p_rank = None,
      p_isConnected = True, p_joinedAt = 10, p_powerups = shielded\<rparr>"

text \<open>A finished room with the players A (300 points) and B (150 points).\<close>

definition finishedRoom :: GameMachine where
  "finishedRoom =
     \<lparr>gm_gameState =
        \<lparr>gs_phase = Finished, gs_roomCode = ''ABC123'', gs_config = plainConfig,
         gs_players = [(''A'', playerWith ''A'' 300 3), (''B'', playerWith ''B'' 150 0)],
         gs_currentQuestion = Some
           \<lparr>cq_question = plainQuestion, cq_questionIndex = 0, cq_totalQuestions = 1,
            cq_startedAt = 1000, cq_timeRemaining = None,
            cq_answers = [(''B'', (answerAt 3000)\<lparr>a_playerId := ''B''\<rparr>),
                          (''A'', (answerAt 4000)\<lparr>a_playerId := ''A''\<rparr>)]\<rparr>,
         gs_questionHistory = [plainQuestion], gs_startedAt = Some 500,
         gs_finishedAt = Some 9000\<rparr>,
      gm_questions = [plainQuestion], gm_currentQuestionIndex = 0, gm_emitted = []\<rparr>"



section \<open>Messages: sample values\<close>

definition textQuestion :: Question where
  "textQuestion = \<lparr>q_id = ''q2'', q_category = ''geography'', q_difficulty = Some Hard,
     q_text = ''Which country?'', q_answerType = TextAnswer, q_options = None,
     q_correctOptionIndex = Some 2, q_correctText = Some ''United States'',
     q_acceptedAnswers = Some [''USA'', ''US''], q_caseSensitive = Some False,
     q_correctNumber = Some 1776, q_lowerBound = Some 1700, q_upperBound = Some 1800,
     q_media = None, q_extraInfo = Some [(''flag'', JStr ''us.png'')], q_timeLimit = Some 15,
     q_points = Some 200\<rparr>"

section \<open>Scoreboard: ranks and sample values\<close>

text \<open>The number of scores strictly higher than a score.\<close>

definition higher :: "number list \<Rightarrow> number \<Rightarrow> nat" where
  "higher scores s = length (filter (\<lambda>t. s < t) scores)"

definition descending :: "number list \<Rightarrow> bool" where
  "descending scores = sorted_wrt (\<lambda>a b. b \<le> a) scores"

text \<open>The scores of the players, in the order of the map.\<close>

definition scoresOf :: "(string, Player) Map \<Rightarrow> number list" where
  "scoresOf players = map (\<lambda>(playerId, player). p_score player) players"

text \<open>Four players, joined in the order C, A, D, B, with the scores 80, 100, 50, 100.\<close>

definition fourPlayers :: "(string, Player) Map" where
  "fourPlayers = [(''C'', playerWith ''C'' 80 0), (''A'', playerWith ''A'' 100 2),
                  (''D'', playerWith ''D'' 50 0), (''B'', playerWith ''B'' 100 1)]"

section \<open>Game machine: sample values\<close>

text \<open>A machine as constructed: in the lobby, without players or questions.\<close>

definition freshMachine :: GameMachine where
  "freshMachine = new_GameMachine plainConfig ''XYZ789''"

text \<open>A game with one player, started and showing its only question.\<close>

definition runningMachine :: GameMachine where
  "runningMachine =
     foldl perform freshMachine
       [AddPlayer ''A'' ''Ann'' 100, StartGame [plainQuestion] 200, NextQuestion 300]"

text \<open>The calls whose phase change goes through a check of the current phase.\<close>

fun guarded :: "MachineCall \<Rightarrow> bool" where
  "guarded (EndGame now) = False"
| "guarded Rematch = False"
| "guarded _ = True"

chapter \<open>Verified properties\<close>

section \<open>Scoring\<close>



text \<open>
  The bonus and multiplier examples of the specification: 50 points decaying by 5 a
  second under a limit of 20 seconds, and 0.1 a streak capped at a factor of 2.
\<close>

lemma time_bonus_examples:
  "calculateTimeBonus \<lparr>tb_enabled = True, tb_maxBonus = 50, tb_decayPerSecond = 5\<rparr> 0 20 = 50"
  "calculateTimeBonus \<lparr>tb_enabled = True, tb_maxBonus = 50, tb_decayPerSecond = 5\<rparr> 10000 20 = 0"
  "calculateTimeBonus \<lparr>tb_enabled = True, tb_maxBonus = 50, tb_decayPerSecond = 5\<rparr> 15000 20 = 0"
  "calculateTimeBonus \<lparr>tb_enabled = True, tb_maxBonus = 50, tb_decayPerSecond = 5\<rparr> 20000 20 = 0"
  by (simp_all add: calculateTimeBonus_def Math_round_def)

lemma streak_multiplier_examples:
  "calculateStreakMultiplier
     \<lparr>sb_enabled = True, sb_multiplierPerStreak = 1 / 10, sb_maxMultiplier = 2\<rparr> 0 = 1"
  "calculateStreakMultiplier
     \<lparr>sb_enabled = True, sb_multiplierPerStreak = 1 / 10, sb_maxMultiplier = 2\<rparr> 5 = 3 / 2"
  "calculateStreakMultiplier
     \<lparr>sb_enabled = True, sb_multiplierPerStreak = 1 / 10, sb_maxMultiplier = 2\<rparr> 20 = 2"
  by (simp_all add: calculateStreakMultiplier_def)







section \<open>Answer tracker\<close>

lemma Map_has_iff: "Map_has m k \<longleftrightarrow> k \<in> fst ` set m"
  by (simp add: Map_has_def map_of_eq_None_iff)

lemma submitAnswer_accepted_has:
  "ar_accepted (fst (submitAnswer t sub)) \<Longrightarrow>
     Map_has (t_answers (snd (submitAnswer t sub))) (s_playerId sub)"
  by (auto simp: submitAnswer_def Let_def rejection_def Map_has_iff dom_update
      split: if_splits)

lemma call_keeps_has: "Map_has (t_answers t) p \<Longrightarrow> Map_has (t_answers (call t c)) p"
  by (cases c)
     (auto simp: submitAnswer_def updateAnswer_def Let_def Map_has_iff dom_update
       split: if_splits option.splits)

lemma during_round_keeps_has:
  "Map_has (t_answers t) p \<Longrightarrow> Map_has (t_answers (during_round t calls)) p"
  unfolding during_round_def
  by (induction calls arbitrary: t) (simp_all add: call_keeps_has)

lemma list_all_update:
  "list_all (\<lambda>(k, v). P k v) m \<Longrightarrow> P k v \<Longrightarrow> list_all (\<lambda>(k, v). P k v) (AList.update k v m)"
  by (induction m) auto

lemma submit_inv: "round_inv t \<Longrightarrow> round_inv (snd (submitAnswer t sub))"
  by (auto simp: round_inv_def submitAnswer_def Let_def Map_has_iff distinct_update dom_update
      intro!: list_all_update)

lemma update_inv: "round_inv t \<Longrightarrow> round_inv (updateAnswer t p u)"
proof (cases "map_of (t_answers t) p")
  case None
  then show "round_inv t \<Longrightarrow> ?thesis" by (simp add: updateAnswer_def)
next
  case (Some answer)
  assume inv: "round_inv t"
  from Some have mem: "(p, answer) \<in> set (t_answers t)" by (rule map_of_SomeD)
  with inv have own: "a_playerId answer = p"
    by (auto simp: round_inv_def list_all_iff)
  from mem have "p \<in> fst ` set (t_answers t)" by (rule rev_image_eqI) simp
  with inv own Some show ?thesis
    by (auto simp: round_inv_def updateAnswer_def distinct_update dom_update
        intro!: list_all_update)
qed

lemma call_inv: "round_inv t \<Longrightarrow> round_inv (call t c)"
  by (cases c) (simp_all add: submit_inv update_inv)

lemma during_round_inv: "round_inv t \<Longrightarrow> round_inv (during_round t calls)"
  unfolding during_round_def
  by (induction calls arbitrary: t) (simp_all add: call_inv)

lemma startQuestion_inv: "round_inv (startQuestion t startTime)"
  by (simp add: round_inv_def startQuestion_def)

lemma distinct_keys_at_most_one:
  "distinct (map fst m) \<Longrightarrow> length (filter (\<lambda>e. fst e = k) m) \<le> 1"
proof (induction m)
  case Nil
  then show ?case by simp
next
  case (Cons e m)
  show ?case
  proof (cases "fst e = k")
    case True
    with Cons.prems have "\<forall>x \<in> set m. fst x \<noteq> k"
      by (auto simp: image_iff)
    then have "filter (\<lambda>e. fst e = k) m = []"
      by (simp add: filter_empty_conv)
    with True show ?thesis by simp
  next
    case False
    with Cons show ?thesis by simp
  qed
qed

lemma distinct_count_list: "distinct xs \<Longrightarrow> count_list xs x \<le> 1"
  by (induction xs) (auto simp: count_list_0_iff)

lemma round_inv_at_most_one:
  assumes "round_inv t"
  shows "length (filter (\<lambda>a. a_playerId a = p) (map snd (t_answers t))) \<le> 1"
proof -
  from assms have own: "\<forall>e \<in> set (t_answers t). a_playerId (snd e) = fst e"
    by (auto simp: round_inv_def list_all_iff)
  then have "filter (\<lambda>e. a_playerId (snd e) = p) (t_answers t)
               = filter (\<lambda>e. fst e = p) (t_answers t)"
    by (intro filter_cong) auto
  moreover have "length (filter (\<lambda>e. fst e = p) (t_answers t)) \<le> 1"
    using assms by (intro distinct_keys_at_most_one) (simp add: round_inv_def)
  ultimately show ?thesis
    by (simp add: filter_map comp_def)
qed

text \<open>
  C4. Once a submission of a player has been accepted, whatever submissions and
  validation updates follow in the round, a further submission of the same player is
  rejected as already answered and leaves the tracker (the answer map and the ordering
  list with it) as it was. And in every round, from \<^verbatim>\<open>startQuestion\<close> on, the answer
  map holds at most one answer of a player and the ordering list names a player at
  most once.
\<close>

theorem submitAnswer_already_answered:
  assumes "ar_accepted (fst (submitAnswer t first))"
    and "s_playerId again = s_playerId first"
  shows "submitAnswer (during_round (snd (submitAnswer t first)) calls) again
           = (rejection AlreadyAnswered, during_round (snd (submitAnswer t first)) calls)
         \<and> length (filter (\<lambda>a. a_playerId a = p)
               (map snd (t_answers (during_round (startQuestion t0 startTime) calls')))) \<le> 1
         \<and> count_list (t_answerOrder (during_round (startQuestion t0 startTime) calls')) p \<le> 1"
proof (intro conjI)
  from assms have "Map_has (t_answers (during_round (snd (submitAnswer t first)) calls))
                     (s_playerId again)"
    by (simp add: submitAnswer_accepted_has during_round_keeps_has)
  then show "submitAnswer (during_round (snd (submitAnswer t first)) calls) again
               = (rejection AlreadyAnswered, during_round (snd (submitAnswer t first)) calls)"
    by (simp add: submitAnswer_def)
next
  have inv: "round_inv (during_round (startQuestion t0 startTime) calls')"
    by (simp add: during_round_inv startQuestion_inv)
  then show "length (filter (\<lambda>a. a_playerId a = p)
               (map snd (t_answers (during_round (startQuestion t0 startTime) calls')))) \<le> 1"
    by (rule round_inv_at_most_one)
  from inv have "distinct (t_answerOrder (during_round (startQuestion t0 startTime) calls'))"
    by (simp add: round_inv_def)
  then show "count_list (t_answerOrder (during_round (startQuestion t0 startTime) calls')) p \<le> 1"
    by (rule distinct_count_list)
qed

theorem submitAnswer_already_answered_witness:
  "ar_accepted (fst (submitAnswer timedTracker (submissionAt ''p1'' 2000)))
   \<and> fst (submitAnswer
        (during_round (snd (submitAnswer timedTracker (submissionAt ''p1'' 2000)))
           [Submit (submissionAt ''p2'' 3000), Update ''p1'' marked])
        (submissionAt ''p1'' 4000)) = rejection AlreadyAnswered
   \<and> t_answerOrder (during_round (snd (submitAnswer timedTracker (submissionAt ''p1'' 2000)))
        [Submit (submissionAt ''p2'' 3000), Update ''p1'' marked]) = [''p1'', ''p2'']"
proof -
  have accepted: "ar_accepted (fst (submitAnswer timedTracker (submissionAt ''p1'' 2000)))"
    by (simp add: submitAnswer_def timedTracker_def submissionAt_def startQuestion_def
        new_AnswerTracker_def Map_has_def truthy_def Let_def)
  have same: "s_playerId (submissionAt ''p1'' 4000) = s_playerId (submissionAt ''p1'' 2000)"
    by (simp add: submissionAt_def)
  have order: "t_answerOrder
      (during_round (snd (submitAnswer timedTracker (submissionAt ''p1'' 2000)))
         [Submit (submissionAt ''p2'' 3000), Update ''p1'' marked]) = [''p1'', ''p2'']"
    by (simp add: during_round_def submitAnswer_def updateAnswer_def timedTracker_def
        submissionAt_def startQuestion_def new_AnswerTracker_def Map_has_def truthy_def Let_def)
  from submitAnswer_already_answered [OF accepted same,
      of "[Submit (submissionAt ''p2'' 3000), Update ''p1'' marked]"]
    accepted order
  show ?thesis by simp
qed




section \<open>Power-ups\<close>

lemma findIndex_None: "findIndex P xs = None \<longleftrightarrow> (\<forall>x \<in> set xs. \<not> P x)"
  by (induction xs) (auto split: option.splits)

lemma findIndex_Some:
  "findIndex P xs = Some i \<Longrightarrow> i < length xs \<and> P (xs ! i) \<and> (\<forall>j < i. \<not> P (xs ! j))"
proof (induction xs arbitrary: i)
  case Nil
  then show ?case by simp
next
  case (Cons x xs)
  show ?case
  proof (cases "P x")
    case True
    with Cons.prems show ?thesis by simp
  next
    case False
    with Cons.prems obtain k where k: "findIndex P xs = Some k" "i = Suc k"
      by (auto split: option.splits)
    from Cons.IH [OF k(1)] False k(2) show ?thesis
      by (auto simp: less_Suc_eq_0_disj)
  qed
qed

lemma mset_splice1:
  "i < length xs \<Longrightarrow> mset xs = add_mset (xs ! i) (mset (splice1 i xs))"
proof -
  assume "i < length xs"
  then have "xs = take i xs @ xs ! i # drop (Suc i) xs"
    by (rule id_take_nth_drop)
  then have "mset xs = mset (take i xs @ xs ! i # drop (Suc i) xs)"
    by simp
  then show ?thesis
    by (simp add: splice1_def)
qed

text \<open>
  C8. Activating a power-up fails, returning no new state and leaving the manager as
  it was, when no available power-up has the requested id or when one is active
  already. Otherwise no power-up was active, and the first available power-up with
  that id becomes the active one and leaves the available list, which loses nothing
  else; the used list is kept. Consuming does nothing to a state with no active
  power-up; otherwise it clears the active slot and appends the active power-up's id
  to the used list.
\<close>

theorem activatePowerup_contract:
  "(if (\<forall>p \<in> set (ps_available s). pu_id p \<noteq> x) \<or> ps_active s \<noteq> None
    then activatePowerup s x = None
         \<and> (map_of (pm_playerStates m) playerId = Some s
              \<longrightarrow> activateForPlayer m playerId x = (False, m))
    else (\<exists>i < length (ps_available s).
            pu_id (ps_available s ! i) = x
            \<and> (\<forall>j < i. pu_id (ps_available s ! j) \<noteq> x)
            \<and> activatePowerup s x =
                Some \<lparr>ps_available = take i (ps_available s) @ drop (Suc i) (ps_available s),
                      ps_active = Some (ps_available s ! i), ps_used = ps_used s\<rparr>
            \<and> mset (ps_available s) =
                add_mset (ps_available s ! i)
                  (mset (take i (ps_available s) @ drop (Suc i) (ps_available s)))))
   \<and> (case ps_active s of
         None \<Rightarrow> consumeActivePowerup s = s
       | Some active \<Rightarrow>
           consumeActivePowerup s =
             \<lparr>ps_available = ps_available s, ps_active = None,
              ps_used = ps_used s @ [pu_id active]\<rparr>)
   \<and> consumeActivePowerup (consumeActivePowerup s) = consumeActivePowerup s"
proof (intro conjI)
  show "if (\<forall>p \<in> set (ps_available s). pu_id p \<noteq> x) \<or> ps_active s \<noteq> None
    then activatePowerup s x = None
         \<and> (map_of (pm_playerStates m) playerId = Some s
              \<longrightarrow> activateForPlayer m playerId x = (False, m))
    else (\<exists>i < length (ps_available s).
            pu_id (ps_available s ! i) = x
            \<and> (\<forall>j < i. pu_id (ps_available s ! j) \<noteq> x)
            \<and> activatePowerup s x =
                Some \<lparr>ps_available = take i (ps_available s) @ drop (Suc i) (ps_available s),
                      ps_active = Some (ps_available s ! i), ps_used = ps_used s\<rparr>
            \<and> mset (ps_available s) =
                add_mset (ps_available s ! i)
                  (mset (take i (ps_available s) @ drop (Suc i) (ps_available s))))"
  proof (cases "findIndex (\<lambda>p. pu_id p = x) (ps_available s)")
    case None
    then have "\<forall>p \<in> set (ps_available s). pu_id p \<noteq> x"
      by (simp add: findIndex_None)
    with None show ?thesis
      by (simp add: activatePowerup_def activateForPlayer_def)
  next
    case (Some i)
    note found = findIndex_Some [OF Some]
    then have present: "\<not> (\<forall>p \<in> set (ps_available s). pu_id p \<noteq> x)"
      by (metis nth_mem)
    show ?thesis
    proof (cases "ps_active s")
      case None
      from found have "mset (ps_available s) =
          add_mset (ps_available s ! i) (mset (splice1 i (ps_available s)))"
        by (simp add: mset_splice1)
      with None Some found present show ?thesis
        by (auto simp: activatePowerup_def splice1_def Let_def intro!: exI [of _ i])
    next
      case active: (Some a)
      with Some show ?thesis
        by (simp add: activatePowerup_def activateForPlayer_def)
    qed
  qed
next
  show "case ps_active s of
         None \<Rightarrow> consumeActivePowerup s = s
       | Some active \<Rightarrow>
           consumeActivePowerup s =
             \<lparr>ps_available = ps_available s, ps_active = None,
              ps_used = ps_used s @ [pu_id active]\<rparr>"
    by (simp add: consumeActivePowerup_def split: option.splits)
next
  show "consumeActivePowerup (consumeActivePowerup s) = consumeActivePowerup s"
    by (simp add: consumeActivePowerup_def split: option.splits)
qed

theorem activatePowerup_contract_witness:
  "activatePowerup twoPowerups ''shield'' = Some shielded
   \<and> activatePowerup shielded ''double-points'' = None
   \<and> activateForPlayer (oneManager shielded) ''p1'' ''double-points''
       = (False, oneManager shielded)
   \<and> activatePowerup twoPowerups ''fifty-fifty'' = None
   \<and> consumeActivePowerup shielded
       = \<lparr>ps_available = [DOUBLE_POINTS], ps_active = None, ps_used = [''shield'']\<rparr>
   \<and> consumeActivePowerup twoPowerups = twoPowerups"
proof -
  have ids: "pu_id DOUBLE_POINTS = ''double-points''" "pu_id SHIELD = ''shield''"
    by (simp_all add: DOUBLE_POINTS_def SHIELD_def)
  have a: "activatePowerup twoPowerups ''shield'' = Some shielded"
    using activatePowerup_contract [of twoPowerups "''shield''"]
    by (auto simp: twoPowerups_def shielded_def createPowerupState_def ids less_Suc_eq)
  have b: "activatePowerup shielded ''double-points'' = None
           \<and> activateForPlayer (oneManager shielded) ''p1'' ''double-points''
               = (False, oneManager shielded)"
    using activatePowerup_contract [of shielded "''double-points''" "oneManager shielded" "''p1''"]
    by (simp add: shielded_def oneManager_def)
  have c: "activatePowerup twoPowerups ''fifty-fifty'' = None"
    using activatePowerup_contract [of twoPowerups "''fifty-fifty''"]
    by (simp add: twoPowerups_def createPowerupState_def ids)
  have d: "consumeActivePowerup shielded
       = \<lparr>ps_available = [DOUBLE_POINTS], ps_active = None, ps_used = [''shield'']\<rparr>"
    using activatePowerup_contract [of shielded]
    by (simp add: shielded_def ids)
  have e: "consumeActivePowerup twoPowerups = twoPowerups"
    using activatePowerup_contract [of twoPowerups]
    by (simp add: twoPowerups_def createPowerupState_def)
  from a b c d e show ?thesis by simp
qed

section \<open>Maps rebuilt entry by entry\<close>

lemma update_fresh: "k \<notin> fst ` set m \<Longrightarrow> AList.update k v m = m @ [(k, v)]"
  by (induction m) auto

lemma foldl_update_distinct:
  "distinct (map fst acc @ map fst entries) \<Longrightarrow>
     foldl (\<lambda>m (k, v). AList.update k (f v) m) acc entries
       = acc @ map (\<lambda>(k, v). (k, f v)) entries"
proof (induction entries arbitrary: acc)
  case Nil
  then show ?case by simp
next
  case (Cons e entries)
  obtain k v where e: "e = (k, v)" by (cases e)
  from Cons.prems e have fresh: "k \<notin> fst ` set acc"
    by auto
  from Cons.prems e have "distinct (map fst (acc @ [(k, f v)]) @ map fst entries)"
    by auto
  from Cons.IH [OF this] fresh e show ?case
    by (simp add: update_fresh)
qed


section \<open>Rematch\<close>

lemma resetForRematch_players:
  "distinct (map fst (gs_players state)) \<Longrightarrow>
     gs_players (resetForRematch state)
       = map (\<lambda>(playerId, player). (playerId, resetPlayer player)) (gs_players state)"
  using foldl_update_distinct [of "[]" "gs_players state" resetPlayer]
  by (simp add: resetForRematch_def)

text \<open>
  C9. After \<^verbatim>\<open>rematch\<close> the phase is the lobby, the question history is empty, no
  round is open and the start and finish times are cleared. The players are the same,
  in the same order, each with its id, name, connectivity flag and join time, the score
  0, the streak 0, no rank and the initial power-up state.
\<close>

theorem rematch_resets:
  assumes "distinct (map fst (gs_players (gm_gameState m)))"
  shows "gs_phase (gm_gameState (rematch m)) = Lobby
       \<and> gs_questionHistory (gm_gameState (rematch m)) = []
       \<and> gs_currentQuestion (gm_gameState (rematch m)) = None
       \<and> gs_startedAt (gm_gameState (rematch m)) = None
       \<and> gs_finishedAt (gm_gameState (rematch m)) = None
       \<and> gm_currentQuestionIndex (rematch m) = - 1
       \<and> gs_players (gm_gameState (rematch m))
           = map (\<lambda>(playerId, player).
                    (playerId,
                     \<lparr>p_id = p_id player, p_name = p_name player, p_score = 0, p_streak = 0,
                      p_rank = None, p_isConnected = p_isConnected player,
                      p_joinedAt = p_joinedAt player,
                      p_powerups = \<lparr>ps_available = [], ps_active = None, ps_used = []\<rparr>\<rparr>))
               (gs_players (gm_gameState m))"
proof -
  have "gs_players (gm_gameState (rematch m))
          = map (\<lambda>(playerId, player). (playerId, resetPlayer player))
              (gs_players (gm_gameState m))"
    using assms by (simp add: rematch_def emit_def resetForRematch_players)
  moreover have "resetPlayer player =
      \<lparr>p_id = p_id player, p_name = p_name player, p_score = 0, p_streak = 0,
       p_rank = None, p_isConnected = p_isConnected player, p_joinedAt = p_joinedAt player,
       p_powerups = \<lparr>ps_available = [], ps_active = None, ps_used = []\<rparr>\<rparr>" for player
    by (simp add: resetPlayer_def createInitialPowerupState_def)
  ultimately show ?thesis
    by (simp add: rematch_def emit_def resetForRematch_def Let_def)
qed

theorem rematch_resets_witness:
  "gs_phase (gm_gameState (rematch finishedRoom)) = Lobby
   \<and> gs_questionHistory (gm_gameState (rematch finishedRoom)) = []
   \<and> map (\<lambda>(playerId, player).
             (playerId, p_name player, p_score player, p_streak player, p_isConnected player,
              p_powerups player))
        (gs_players (gm_gameState (rematch finishedRoom)))
       = [(''A'', ''A'', 0, 0, True, \<lparr>ps_available = [], ps_active = None, ps_used = []\<rparr>),
          (''B'', ''B'', 0, 0, True, \<lparr>ps_available = [], ps_active = None, ps_used = []\<rparr>)]"
proof -
  have "distinct (map fst (gs_players (gm_gameState finishedRoom)))"
    by (simp add: finishedRoom_def)
  from rematch_resets [OF this] show ?thesis
    by (simp add: finishedRoom_def playerWith_def)
qed

section \<open>Persistence\<close>



section \<open>Messages to the players\<close>

text \<open>
  C7. For every question, of the interface or of an extension of it,
  \<^verbatim>\<open>stripAnswerData\<close> returns a question without the correct option index, the
  correct text, the correct number and the accepted answers, and with every other
  field, the extension included, as it was; the result does not depend on the four
  fields. The \<^verbatim>\<open>question:show\<close> and \<^verbatim>\<open>question:replaced\<close> messages carry the stripped
  question.
\<close>

theorem stripAnswerData_strips:
  "q_correctOptionIndex (stripAnswerData q) = None
   \<and> q_correctText (stripAnswerData q) = None
   \<and> q_correctNumber (stripAnswerData q) = None
   \<and> q_acceptedAnswers (stripAnswerData q) = None
   \<and> q_id (stripAnswerData q) = q_id q
   \<and> q_category (stripAnswerData q) = q_category q
   \<and> q_difficulty (stripAnswerData q) = q_difficulty q
   \<and> q_text (stripAnswerData q) = q_text q
   \<and> q_answerType (stripAnswerData q) = q_answerType q
   \<and> q_options (stripAnswerData q) = q_options q
   \<and> q_caseSensitive (stripAnswerData q) = q_caseSensitive q
   \<and> q_lowerBound (stripAnswerData q) = q_lowerBound q
   \<and> q_upperBound (stripAnswerData q) = q_upperBound q
   \<and> q_media (stripAnswerData q) = q_media q
   \<and> q_extraInfo (stripAnswerData q) = q_extraInfo q
   \<and> q_timeLimit (stripAnswerData q) = q_timeLimit q
   \<and> q_points (stripAnswerData q) = q_points q
   \<and> Question.more (stripAnswerData q) = Question.more q
   \<and> stripAnswerData (q\<lparr>q_correctOptionIndex := index, q_correctText := txt,
                          q_correctNumber := number, q_acceptedAnswers := aliases\<rparr>)
       = stripAnswerData q
   \<and> stripAnswerData (stripAnswerData q) = stripAnswerData q
   \<and> carriedQuestion (createQuestionShowMessage question questionIndex totalQuestions timeLimit now)
       = Some (stripAnswerData question)
   \<and> carriedQuestion (createQuestionReplacedMessage question questionIndex totalQuestions timeLimit now)
       = Some (stripAnswerData question)"
  by (simp add: stripAnswerData_def createQuestionShowMessage_def
      createQuestionReplacedMessage_def)

theorem stripAnswerData_strips_witness:
  "createQuestionShowMessage textQuestion 0 10 (Some 15) 1000
     = QuestionShowMessage
         \<lparr>qp_question = textQuestion\<lparr>q_correctOptionIndex := None, q_correctText := None,
                                      q_correctNumber := None, q_acceptedAnswers := None\<rparr>,
          qp_questionIndex = 0, qp_totalQuestions = 10, qp_timeLimit = Some 15,
          qp_startedAt = 1000\<rparr>
   \<and> q_correctText (stripAnswerData textQuestion) = None
   \<and> q_upperBound (stripAnswerData textQuestion) = Some 1800"
  using stripAnswerData_strips [of textQuestion, where question = textQuestion]
  by (simp add: createQuestionShowMessage_def stripAnswerData_def textQuestion_def)

section \<open>Scoreboard\<close>

declare assignRanks.simps [simp del]

lemma descending_nth: "descending ss \<Longrightarrow> i \<le> j \<Longrightarrow> j < length ss \<Longrightarrow> ss ! j \<le> ss ! i"
  by (cases "i = j") (auto simp: descending_def sorted_wrt_iff_nth_less)

lemma higher_first_of_group:
  assumes "descending ss" "i < length ss" "i = 0 \<or> ss ! i < ss ! (i - 1)"
  shows "higher ss (ss ! i) = i"
proof -
  have before: "\<forall>t \<in> set (take i ss). ss ! i < t"
  proof
    fix t assume "t \<in> set (take i ss)"
    then obtain j where j: "j < i" "t = ss ! j"
      using assms(2) by (auto simp: in_set_conv_nth)
    with assms(3) have less: "ss ! i < ss ! (i - 1)" by auto
    from j assms(1,2) have "ss ! (i - 1) \<le> ss ! j"
      by (intro descending_nth) auto
    with less j show "ss ! i < t" by simp
  qed
  have after: "\<forall>t \<in> set (drop i ss). \<not> ss ! i < t"
  proof
    fix t assume "t \<in> set (drop i ss)"
    then obtain k where k: "k < length ss - i" "t = ss ! (i + k)"
      by (auto simp: in_set_conv_nth)
    with assms(1) have "ss ! (i + k) \<le> ss ! i"
      by (intro descending_nth) auto
    with k show "\<not> ss ! i < t" by simp
  qed
  have "filter (\<lambda>t. ss ! i < t) ss
          = filter (\<lambda>t. ss ! i < t) (take i ss) @ filter (\<lambda>t. ss ! i < t) (drop i ss)"
    by (metis append_take_drop_id filter_append)
  also have "filter (\<lambda>t. ss ! i < t) (take i ss) = take i ss"
    using before by (simp add: filter_id_conv)
  also have "filter (\<lambda>t. ss ! i < t) (drop i ss) = []"
    using after by (simp add: filter_empty_conv)
  finally show ?thesis
    using assms(2) by (simp add: higher_def)
qed

lemma assignRanks_descending:
  assumes "descending (map e_score entries)" "i \<le> length entries"
    and "i = 0 \<longrightarrow> currentRank = 1"
    and "0 < i \<longrightarrow> currentRank = 1 + higher (map e_score entries) (e_score (entries ! (i - 1)))"
  shows "assignRanks i currentRank entries
           = take i entries
             @ map (\<lambda>e. e\<lparr>e_rank := 1 + higher (map e_score entries) (e_score e)\<rparr>)
                 (drop i entries)"
  using assms
proof (induction i currentRank entries rule: assignRanks.induct)
  case (1 i currentRank entries)
  let ?ss = "map e_score entries"
  show ?case
  proof (cases "i < length entries")
    case False
    with "1.prems" show ?thesis
      by (subst assignRanks.simps) simp
  next
    case True
    define r where "r = (if 0 < i \<and> e_score (entries ! i) < e_score (entries ! (i - 1))
                         then i + 1 else currentRank)"
    define entries' where "entries' = entries[i := (entries ! i)\<lparr>e_rank := r\<rparr>]"
    have scores: "map e_score entries' = ?ss"
      using True by (simp add: entries'_def map_update list_update_same_conv)
    have r: "r = 1 + higher ?ss (e_score (entries ! i))"
    proof (cases "i = 0 \<or> e_score (entries ! i) < e_score (entries ! (i - 1))")
      case first: True
      with True "1.prems"(1) have "higher ?ss (?ss ! i) = i"
        by (intro higher_first_of_group) auto
      with first True "1.prems"(3) show ?thesis
        by (auto simp: r_def)
    next
      case same: False
      with True "1.prems"(1) have "?ss ! i \<le> ?ss ! (i - 1)"
        by (intro descending_nth) auto
      with same True have "e_score (entries ! i) = e_score (entries ! (i - 1))"
        by auto
      with same "1.prems"(4) show ?thesis
        by (simp add: r_def)
    qed
    have step: "assignRanks i currentRank entries = assignRanks (i + 1) r entries'"
      using True by (subst assignRanks.simps) (simp add: r_def entries'_def Let_def)
    note IH = "1.IH" [OF True refl, folded r_def, folded entries'_def]
    have nth: "e_score (entries' ! i) = e_score (entries ! i)"
      using True by (simp add: entries'_def)
    have "assignRanks (i + 1) r entries'
            = take (i + 1) entries'
              @ map (\<lambda>e. e\<lparr>e_rank := 1 + higher (map e_score entries') (e_score e)\<rparr>)
                  (drop (i + 1) entries')"
    proof (rule IH)
      show "descending (map e_score entries')"
        using "1.prems"(1) scores by simp
      show "i + 1 \<le> length entries'"
        using True by (simp add: entries'_def)
      show "i + 1 = 0 \<longrightarrow> r = 1"
        by simp
      show "0 < i + 1 \<longrightarrow>
              r = 1 + higher (map e_score entries') (e_score (entries' ! (i + 1 - 1)))"
        using r scores nth by simp
    qed
    also have "take (i + 1) entries' = take i entries @ [(entries ! i)\<lparr>e_rank := r\<rparr>]"
      using True by (simp add: entries'_def take_Suc_conv_app_nth)
    also have "drop (i + 1) entries' = drop (Suc i) entries"
      by (simp add: entries'_def)
    finally show ?thesis
      using True r scores step
      by (simp add: Cons_nth_drop_Suc [symmetric])
  qed
qed

lemma descending_sortByScore: "descending (map e_score (sortByScore entries))"
proof -
  have "sorted (map (\<lambda>e. - e_score e) (sortByScore entries))"
    by (simp add: sortByScore_def)
  then show ?thesis
    by (simp add: descending_def sorted_wrt_map)
qed

lemma mset_sortByScore: "mset (sortByScore entries) = mset entries"
  by (simp add: sortByScore_def)

lemma higher_mset: "mset ss = mset ss' \<Longrightarrow> higher ss s = higher ss' s"
proof -
  assume "mset ss = mset ss'"
  then have "mset (filter (\<lambda>t. s < t) ss) = mset (filter (\<lambda>t. s < t) ss')"
    by simp
  then show ?thesis
    unfolding higher_def by (rule mset_eq_length)
qed

lemma descending_is_rev_sort:
  assumes "descending ss" "mset ss = mset scores"
  shows "ss = rev (sort scores)"
proof -
  from assms(1) have "sorted (rev ss)"
    by (simp add: descending_def sorted_wrt_rev)
  moreover from assms(2) have "mset (rev ss) = mset scores"
    by simp
  ultimately have "sort scores = rev ss"
    by (metis properties_for_sort)
  then show ?thesis by simp
qed

lemma score_toEntry: "e_score (toEntry answers player) = p_score player"
  by (simp add: toEntry_def Let_def)

lemma scores_of_entries:
  "map e_score (map (toEntry answers) (map snd players)) = scoresOf players"
  by (simp add: scoresOf_def score_toEntry comp_def case_prod_unfold)

lemma mset_scores_sorted:
  "mset (map e_score (sortByScore (map (toEntry answers) (map snd players))))
     = mset (scoresOf players)"
proof -
  have "mset (map e_score (sortByScore (map (toEntry answers) (map snd players))))
          = mset (map e_score (map (toEntry answers) (map snd players)))"
    by (simp only: mset_map mset_sortByScore)
  then show ?thesis
    by (simp only: scores_of_entries)
qed

lemma calculateScoreboard_eq:
  "calculateScoreboard players answers
     = map (\<lambda>e. e\<lparr>e_rank := 1 + higher (scoresOf players) (e_score e)\<rparr>)
         (sortByScore (map (toEntry answers) (map snd players)))"
proof -
  let ?sorted = "sortByScore (map (toEntry answers) (map snd players))"
  have "mset (map e_score ?sorted) = mset (scoresOf players)"
    by (rule mset_scores_sorted)
  then have same: "higher (map e_score ?sorted) s = higher (scoresOf players) s" for s
    by (rule higher_mset)
  have "assignRanks 0 1 ?sorted
          = take 0 ?sorted
            @ map (\<lambda>e. e\<lparr>e_rank := 1 + higher (map e_score ?sorted) (e_score e)\<rparr>)
                (drop 0 ?sorted)"
    by (rule assignRanks_descending) (simp_all add: descending_sortByScore)
  then show ?thesis
    unfolding calculateScoreboard_def
    by (simp only: same take_0 append_Nil drop_0)
qed

text \<open>
  C6. The scoreboard lists the players by descending score: its scores are the
  players' scores sorted downwards, and its entries are the players' ids, names,
  scores and streaks. The rank of an entry is one plus the number of players with a
  strictly higher score, so tied scores share a rank and the next lower score takes
  the rank of its position. The ranks are a function of the list of scores alone.
\<close>

theorem calculateScoreboard_ranks:
  "map e_score (calculateScoreboard players answers) = rev (sort (scoresOf players))
   \<and> descending (map e_score (calculateScoreboard players answers))
   \<and> mset (map (\<lambda>e. (e_playerId e, e_playerName e, e_score e, e_streak e))
        (calculateScoreboard players answers))
       = mset (map (\<lambda>(playerId, player).
                      (p_id player, p_name player, p_score player, p_streak player)) players)
   \<and> (\<forall>e \<in> set (calculateScoreboard players answers).
         e_rank e = 1 + higher (scoresOf players) (e_score e))
   \<and> map e_rank (calculateScoreboard players answers)
       = map (\<lambda>s. 1 + higher (scoresOf players) s) (rev (sort (scoresOf players)))"
proof -
  let ?entries = "map (toEntry answers) (map snd players)"
  let ?board = "calculateScoreboard players answers"
  have scores: "map e_score ?board = map e_score (sortByScore ?entries)"
    by (simp add: calculateScoreboard_eq comp_def)
  then have desc: "descending (map e_score ?board)"
    by (simp add: descending_sortByScore)
  have "mset (map e_score ?board) = mset (scoresOf players)"
    by (simp only: scores mset_scores_sorted)
  with desc have sorted: "map e_score ?board = rev (sort (scoresOf players))"
    by (rule descending_is_rev_sort)
  have ranks: "\<forall>e \<in> set ?board. e_rank e = 1 + higher (scoresOf players) (e_score e)"
    by (auto simp: calculateScoreboard_eq)
  then have "map e_rank ?board = map (\<lambda>s. 1 + higher (scoresOf players) s) (map e_score ?board)"
    by (simp add: comp_def)
  with sorted have ranks_list: "map e_rank ?board
      = map (\<lambda>s. 1 + higher (scoresOf players) s) (rev (sort (scoresOf players)))"
    by simp
  have "mset (map (\<lambda>e. (e_playerId e, e_playerName e, e_score e, e_streak e)) ?board)
          = mset (map (\<lambda>e. (e_playerId e, e_playerName e, e_score e, e_streak e))
              (sortByScore ?entries))"
    by (simp add: calculateScoreboard_eq comp_def)
  also have "\<dots> = mset (map (\<lambda>e. (e_playerId e, e_playerName e, e_score e, e_streak e)) ?entries)"
    by (simp only: mset_map mset_sortByScore)
  also have "\<dots> = mset (map (\<lambda>(playerId, player).
                      (p_id player, p_name player, p_score player, p_streak player)) players)"
    by (simp add: toEntry_def Let_def comp_def case_prod_unfold)
  finally show ?thesis
    using sorted desc ranks ranks_list by simp
qed

theorem calculateScoreboard_ranks_witness:
  "map e_score (calculateScoreboard fourPlayers None) = [100, 100, 80, 50]
   \<and> map e_rank (calculateScoreboard fourPlayers None) = [1, 1, 3, 4]"
  using calculateScoreboard_ranks [of fourPlayers None]
  by (simp add: scoresOf_def fourPlayers_def playerWith_def higher_def)

section \<open>Phase transitions\<close>

lemma isValidPhaseTransition_table:
  "isValidPhaseTransition from to \<longleftrightarrow>
     (from, to) \<in> {(Lobby, Playing), (Playing, Revealing), (Playing, Finished),
                    (Revealing, Playing), (Revealing, Finished), (Finished, Lobby)}"
  by (cases "from"; cases to) (simp_all add: isValidPhaseTransition_def validTransitions_def)

lemma transitionTo_rejects:
  "\<not> isValidPhaseTransition (getPhase m) phase \<Longrightarrow> transitionTo phase m = (False, m)"
  by (simp add: transitionTo_def)

lemma transitionTo_accepts:
  "isValidPhaseTransition (getPhase m) phase \<Longrightarrow>
     transitionTo phase m = (True, setPhase phase m)"
  by (simp add: transitionTo_def)

lemma getPhase_simps:
  "getPhase (emit event m) = getPhase m"
  "getPhase (setPlayers players m) = getPhase m"
  "getPhase (setPhase phase m) = phase"
  by (simp_all add: getPhase_def emit_def setPlayers_def setPhase_def)

text \<open>
  Every call other than \<^verbatim>\<open>endGame\<close> and \<^verbatim>\<open>rematch\<close> keeps the phase or changes it
  along an edge of the table, in every state of the machine.
\<close>

lemma guarded_calls_follow_table:
  assumes "guarded c"
  shows "getPhase (perform m c) = getPhase m
         \<or> isValidPhaseTransition (getPhase m) (getPhase (perform m c))"
proof (cases c)
  case (AddPlayer playerId playerName now)
  then show ?thesis
    by (simp add: addPlayer_def getPhase_simps Let_def split: option.splits)
next
  case (RemovePlayer playerId)
  then show ?thesis
    by (simp add: removePlayer_def getPhase_simps split: option.splits)
next
  case (KickPlayer playerId)
  then show ?thesis
    by (simp add: kickPlayer_def getPhase_simps)
next
  case (StartGame questions now)
  then show ?thesis
    by (simp add: startGame_def transitionTo_def getPhase_simps Let_def
        isValidPhaseTransition_table)
       (simp add: getPhase_def setPhase_def)
next
  case (NextQuestion now)
  then show ?thesis
    by (auto simp: nextQuestion_def Let_def isValidPhaseTransition_table emit_def
        getPhase_def setPhase_def)
next
  case (RecordAnswer answer)
  then show ?thesis
    by (simp add: recordAnswer_def getPhase_def emit_def split: option.splits)
next
  case EndQuestion
  then show ?thesis
    by (simp add: endQuestion_def getPhase_simps)
next
  case RevealAnswer
  then show ?thesis
    by (auto simp: revealAnswer_def transitionTo_def Let_def isValidPhaseTransition_table
        emit_def getPhase_def setPhase_def split: option.splits)
next
  case (UpdatePlayerScore playerId score streak)
  then show ?thesis
    by (simp add: updatePlayerScore_def getPhase_simps split: option.splits)
next
  case (AdjustScore playerId points)
  then show ?thesis
    by (simp add: adjustScore_def getPhase_simps split: option.splits)
next
  case (EndGame now)
  with assms show ?thesis by simp
next
  case Rematch
  with assms show ?thesis by simp
qed

text \<open>
  C1 at the inputs where the code departs from it. \<^verbatim>\<open>endGame\<close> writes the phase
  without consulting the table: called on a machine in the lobby, it leaves the machine
  finished, with a finish time and an event, although lobby to finished is no edge of
  the table. \<^verbatim>\<open>rematch\<close> does the same towards the lobby: called while a question
  is being played, it puts the machine back in the lobby and drops the open round,
  although playing to lobby is no edge.
\<close>

theorem endGame_ignores_transition_table:
  "getPhase freshMachine = Lobby
   \<and> \<not> isValidPhaseTransition Lobby Finished
   \<and> transitionTo Finished freshMachine = (False, freshMachine)
   \<and> getPhase (snd (endGame 5000 freshMachine)) = Finished
   \<and> gs_finishedAt (gm_gameState (snd (endGame 5000 freshMachine))) = Some 5000
   \<and> snd (endGame 5000 freshMachine) \<noteq> freshMachine
   \<and> getPhase runningMachine = Playing
   \<and> gs_currentQuestion (gm_gameState runningMachine) \<noteq> None
   \<and> \<not> isValidPhaseTransition Playing Lobby
   \<and> getPhase (rematch runningMachine) = Lobby
   \<and> gs_currentQuestion (gm_gameState (rematch runningMachine)) = None"
  by (simp add: isValidPhaseTransition_table transitionTo_def freshMachine_def
      runningMachine_def new_GameMachine_def plainConfig_def createInitialGameState_def
      endGame_def rematch_def resetForRematch_def emit_def getPhase_def setPhase_def
      setPlayers_def addPlayer_def startGame_def nextQuestion_def Let_def
      createCurrentQuestionState_def)

end
